theory Spec2Isabelle
  imports Main "HOL-Library.Word"
begin

section \<open>JavaScript strings\<close>

text \<open>
  A JavaScript string is a sequence of 16-bit code units. The script's literals are
  partly Arabic, so they are written here as lists of code units; \<open>ascii\<close> embeds
  the ASCII literals (urls, property names, header values).
\<close>

type_synonym js_string = "16 word list"

definition ascii :: "string \<Rightarrow> js_string" where
  "ascii s = map (\<lambda>c. of_nat (of_char c)) s"

text \<open>
  \<open>String.prototype.trim\<close> removes the code units of WhiteSpace and LineTerminator
  from both ends: TAB, LF, VT, FF, CR, SPACE, NBSP, U+1680, U+2000 to U+200A, U+2028,
  U+2029, U+202F, U+205F, U+3000 and U+FEFF.
\<close>

definition is_white_space :: "16 word \<Rightarrow> bool" where
  "is_white_space c \<longleftrightarrow>
     unat c \<in> set [0x9, 0xA, 0xB, 0xC, 0xD, 0x20, 0xA0, 0x1680, 0x2028, 0x2029,
                     0x202F, 0x205F, 0x3000, 0xFEFF]
     \<or> (0x2000 \<le> unat c \<and> unat c \<le> 0x200A)"

definition trim :: "js_string \<Rightarrow> js_string" where
  "trim s = rev (dropWhile is_white_space (rev (dropWhile is_white_space s)))"

fun join :: "js_string \<Rightarrow> js_string list \<Rightarrow> js_string" where
  "join sep [] = []"
| "join sep [x] = x"
| "join sep (x # y # ys) = x @ sep @ join sep (y # ys)"

section \<open>Numbers\<close>

text \<open>
  The service's envelope carries integer identifiers only, so the numbers of the model
  are the integers and NaN. \<open>Finite n\<close> stands for the Number whose value is \<open>n\<close>.
  A Number is a double: it holds every integer \<open>n\<close> with \<open>\<bar>n\<bar> < 2 ^ 53\<close> exactly, and
  not every integer beyond. The conversions below are those of JavaScript on these safe
  integers only, and a statement about a number that the service sent assumes
  \<open>safe_integer\<close> of it.
\<close>

datatype number = Finite int | NaN

definition safe_integer :: "int \<Rightarrow> bool" where
  "safe_integer n \<longleftrightarrow> - (2 ^ 53) < n \<and> n < 2 ^ 53"

definition digit :: "nat \<Rightarrow> 16 word" where
  "digit d = of_nat (48 + d)"

fun digits :: "nat \<Rightarrow> js_string" where
  "digits n = (if n < 10 then [digit n] else digits (n div 10) @ [digit (n mod 10)])"

declare digits.simps [simp del]

text \<open>
  Number::toString on a safe integer: a minus sign for a negative one, then the decimal
  digits. Beyond the safe integers JavaScript prints the shortest digits that read back
  as the same double, and from \<open>10 ^ 21\<close> an exponent form (\<open>1e+21\<close>); this function
  does not follow it there.
\<close>

definition Number_toString :: "int \<Rightarrow> js_string" where
  "Number_toString n = (if n < 0 then 0x2D # digits (nat (- n)) else digits (nat n))"

definition is_digit :: "16 word \<Rightarrow> bool" where
  "is_digit c \<longleftrightarrow> 48 \<le> unat c \<and> unat c \<le> 57"

definition digits_value :: "js_string \<Rightarrow> nat" where
  "digits_value cs = foldl (\<lambda>acc c. 10 * acc + (unat c - 48)) 0 cs"

definition decimal_digits :: "js_string \<Rightarrow> bool" where
  "decimal_digits cs \<longleftrightarrow> cs \<noteq> [] \<and> list_all is_digit cs"

text \<open>
  \<open>Number(text)\<close>, that is StringToNumber: white space is stripped from both ends; the
  empty text is 0; an optionally signed run of decimal digits is its value. This is
  JavaScript's answer on the empty text and on the digit runs whose value is a safe
  integer, which are the texts the theorems below read. It is not on the others: a run
  of a greater value is rounded to a double by JavaScript and not here, and a literal
  with a fraction, an exponent, a radix prefix or \<open>Infinity\<close> has a value in JavaScript
  and is mapped to NaN here, with the texts that are no numeric literal.
\<close>

definition to_Number :: "js_string \<Rightarrow> number" where
  "to_Number s =
     (case trim s of
        [] \<Rightarrow> Finite 0
      | c # cs \<Rightarrow>
          if c = 0x2D then (if decimal_digits cs then Finite (- int (digits_value cs)) else NaN)
          else if c = 0x2B then (if decimal_digits cs then Finite (int (digits_value cs)) else NaN)
          else if decimal_digits (c # cs) then Finite (int (digits_value (c # cs)))
          else NaN)"

section \<open>JSON values\<close>

text \<open>
  The value that \<open>r.json()\<close> resolves to. An object is the list of its own properties
  in enumeration order, with distinct names; a number is an integer, read as a Number
  when it is a safe one (see above).
\<close>

datatype json =
    JNull
  | JBool bool
  | JNum int
  | JStr js_string
  | JArr "json list"
  | JObj "(js_string \<times> json) list"

text \<open>ToBoolean, as applied by \<open>if (j.ok)\<close> and by \<open>||\<close>.\<close>

fun truthy :: "json \<Rightarrow> bool" where
  "truthy JNull = False"
| "truthy (JBool b) = b"
| "truthy (JNum n) = (n \<noteq> 0)"
| "truthy (JStr s) = (s \<noteq> [])"
| "truthy (JArr xs) = True"
| "truthy (JObj kvs) = True"

text \<open>
  ToString, as applied by \<open>+\<close> with a string operand. An array is joined with commas,
  a null element giving the empty text; an object is \<open>[object Object]\<close>.
\<close>

fun ToString :: "json \<Rightarrow> js_string" where
  "ToString JNull = ascii ''null''"
| "ToString (JBool b) = (if b then ascii ''true'' else ascii ''false'')"
| "ToString (JNum n) = Number_toString n"
| "ToString (JStr s) = s"
| "ToString (JArr xs) = join (ascii '','') (map (\<lambda>x. if x = JNull then [] else ToString x) xs)"
| "ToString (JObj kvs) = ascii ''[object Object]''"

subsection \<open>JSON.stringify\<close>

definition hex_digit :: "nat \<Rightarrow> 16 word" where
  "hex_digit d = (if d < 10 then of_nat (48 + d) else of_nat (87 + d))"

text \<open>\<open>\uXXXX\<close> with four lower-case hexadecimal digits.\<close>

definition unicode_escape :: "16 word \<Rightarrow> js_string" where
  "unicode_escape c =
     [0x5C, 0x75, hex_digit (unat c div 4096), hex_digit (unat c div 256 mod 16),
      hex_digit (unat c div 16 mod 16), hex_digit (unat c mod 16)]"

definition is_high_surrogate :: "16 word \<Rightarrow> bool" where
  "is_high_surrogate c \<longleftrightarrow> 0xD800 \<le> unat c \<and> unat c \<le> 0xDBFF"

definition is_low_surrogate :: "16 word \<Rightarrow> bool" where
  "is_low_surrogate c \<longleftrightarrow> 0xDC00 \<le> unat c \<and> unat c \<le> 0xDFFF"

text \<open>
  The body of QuoteJSONString: the short escapes, \<open>\u00XX\<close> for the other control
  characters, \<open>\uXXXX\<close> for a surrogate that is not part of a pair, and every other
  code unit as it is.
\<close>

fun quote_units :: "js_string \<Rightarrow> js_string" where
  "quote_units [] = []"
| "quote_units (c # cs) =
     (if c = 0x08 then [0x5C, 0x62] @ quote_units cs
      else if c = 0x09 then [0x5C, 0x74] @ quote_units cs
      else if c = 0x0A then [0x5C, 0x6E] @ quote_units cs
      else if c = 0x0C then [0x5C, 0x66] @ quote_units cs
      else if c = 0x0D then [0x5C, 0x72] @ quote_units cs
      else if c = 0x22 then [0x5C, 0x22] @ quote_units cs
      else if c = 0x5C then [0x5C, 0x5C] @ quote_units cs
      else if unat c < 0x20 then unicode_escape c @ quote_units cs
      else if is_high_surrogate c then
        (case cs of
           [] \<Rightarrow> unicode_escape c
         | d # ds \<Rightarrow>
             if is_low_surrogate d then c # d # quote_units ds
             else unicode_escape c @ quote_units cs)
      else if is_low_surrogate c then unicode_escape c @ quote_units cs
      else c # quote_units cs)"

definition quote :: "js_string \<Rightarrow> js_string" where
  "quote s = [0x22] @ quote_units s @ [0x22]"

fun JSON_stringify :: "json \<Rightarrow> js_string" where
  "JSON_stringify JNull = ascii ''null''"
| "JSON_stringify (JBool b) = (if b then ascii ''true'' else ascii ''false'')"
| "JSON_stringify (JNum n) = Number_toString n"
| "JSON_stringify (JStr s) = quote s"
| "JSON_stringify (JArr xs) = ascii ''['' @ join (ascii '','') (map JSON_stringify xs) @ ascii '']''"
| "JSON_stringify (JObj kvs) =
     ascii ''{'' @ join (ascii '','')
       (map (\<lambda>kv. quote (fst kv) @ ascii '':'' @ JSON_stringify (snd kv)) kvs) @ ascii ''}''"

section \<open>The page and what the script does to its surroundings\<close>

text \<open>
  The markup is not part of the script. The page has one field for each thing the
  script reads or writes through \<open>document.getElementById\<close>: the \<open>value\<close> of the
  inputs \<open>token\<close>, \<open>label\<close> and \<open>newBio\<close>, the \<open>innerText\<close> of \<open>saveResult\<close>,
  \<open>updateResult\<close>, \<open>tokenId\<close> and \<open>displayBio\<close>, and the \<open>classList\<close> of
  \<open>step1\<close> and \<open>dashboard\<close>. A text field holds the text last assigned to it.
\<close>

record page =
  token_value :: js_string
  label_value :: js_string
  newBio_value :: js_string
  saveResult_text :: js_string
  updateResult_text :: js_string
  tokenId_text :: js_string
  displayBio_text :: js_string
  step1_classes :: "js_string list"
  dashboard_classes :: "js_string list"

record request =
  url :: js_string
  http_method :: js_string
  headers :: "(js_string \<times> js_string) list"
  body :: js_string

text \<open>
  What a \<open>try\<close> block can throw: the rejection of \<open>fetch\<close>, the rejection of
  \<open>r.json()\<close> (each with the message the browser gives), and the TypeError of reading
  a property of \<open>null\<close>.
\<close>

datatype js_error =
    Fetch_failed js_string
  | Json_failed js_string
  | Null_read js_string

text \<open>How the round trip ends: \<open>fetch\<close> rejects, \<open>r.json()\<close> rejects, or \<open>j\<close> is there.\<close>

datatype fetch_outcome =
    Rejected js_string
  | Not_json js_string
  | Parsed json

datatype event =
    Fetch request
  | Console_error js_error
  | Confirm js_string
  | Alert js_string
  | Reload

record world =
  doc :: page
  trace :: "event list"

text \<open>
  \<open>j.name\<close> for the names the script reads (\<open>ok\<close>, \<open>id\<close>, \<open>error\<close>; no prototype
  defines them): a TypeError on \<open>null\<close>, the own property of an object, and
  \<open>undefined\<close> (\<open>None\<close>) otherwise.
\<close>

fun get_prop :: "json \<Rightarrow> js_string \<Rightarrow> js_error + json option" where
  "get_prop JNull name = Inl (Null_read name)"
| "get_prop (JObj kvs) name = Inr (map_of kvs name)"
| "get_prop j name = Inr None"

fun truthy_opt :: "json option \<Rightarrow> bool" where
  "truthy_opt None = False"
| "truthy_opt (Some v) = truthy v"

text \<open>
  Assigning to \<open>innerText\<close> converts to a DOMString: \<open>undefined\<close> gives
  \<open>undefined\<close>, \<open>null\<close> the empty text, anything else its ToString.
\<close>

fun innerText_of :: "json option \<Rightarrow> js_string" where
  "innerText_of None = ascii ''undefined''"
| "innerText_of (Some JNull) = []"
| "innerText_of (Some v) = ToString v"

text \<open>\<open>(j.error || JSON.stringify(j))\<close>, as the text that \<open>+\<close> appends.\<close>

fun error_or_dump :: "json option \<Rightarrow> json \<Rightarrow> js_string" where
  "error_or_dump None j = JSON_stringify j"
| "error_or_dump (Some v) j = (if truthy v then ToString v else JSON_stringify j)"

definition classList_add :: "js_string \<Rightarrow> js_string list \<Rightarrow> js_string list" where
  "classList_add c cs = (if c \<in> set cs then cs else cs @ [c])"

definition classList_remove :: "js_string \<Rightarrow> js_string list \<Rightarrow> js_string list" where
  "classList_remove c cs = filter (\<lambda>x. x \<noteq> c) cs"

text \<open>\<open>JSON.stringify\<close> writes a NaN as \<open>null\<close>.\<close>

fun number_json :: "number \<Rightarrow> json" where
  "number_json (Finite n) = JNum n"
| "number_json NaN = JNull"

subsection \<open>The literals of the script\<close>

definition apiBase :: js_string where
  "apiBase = []"

definition hidden :: js_string where
  "hidden = ascii ''hidden''"

text \<open>Line 7, "saving...".\<close>

definition saving_text :: js_string where
  "saving_text = [0x62C, 0x627, 0x631, 0x64A, 0x20, 0x627, 0x644, 0x62D, 0x641, 0x638,
                  0x2E, 0x2E, 0x2E]"

text \<open>Line 17, "saved; you can edit now".\<close>

definition saved_text :: js_string where
  "saved_text = [0x62A, 0x645, 0x20, 0x627, 0x644, 0x62D, 0x641, 0x638, 0x2E, 0x20, 0x64A,
                 0x645, 0x643, 0x646, 0x643, 0x20, 0x627, 0x644, 0x622, 0x646, 0x20, 0x627,
                 0x644, 0x62A, 0x639, 0x62F, 0x64A, 0x644, 0x2E]"

text \<open>Line 22, "error: ".\<close>

definition save_error_prefix :: js_string where
  "save_error_prefix = [0x62E, 0x637, 0x623, 0x3A, 0x20]"

text \<open>Lines 25 and 49, "connection error".\<close>

definition connection_error_text :: js_string where
  "connection_error_text = [0x62E, 0x637, 0x623, 0x20, 0x641, 0x64A, 0x20, 0x627, 0x644,
                            0x627, 0x62A, 0x635, 0x627, 0x644]"

text \<open>Line 34, "updating...".\<close>

definition updating_text :: js_string where
  "updating_text = [0x62C, 0x627, 0x631, 0x64A, 0x20, 0x627, 0x644, 0x62A, 0x62D, 0x62F,
                    0x64A, 0x62B, 0x2E, 0x2E, 0x2E]"

text \<open>Line 43, "updated successfully".\<close>

definition updated_text :: js_string where
  "updated_text = [0x62A, 0x645, 0x20, 0x627, 0x644, 0x62A, 0x62D, 0x62F, 0x64A, 0x62B,
                   0x20, 0x628, 0x646, 0x62C, 0x627, 0x62D, 0x2E]"

text \<open>Line 46, "failed: ".\<close>

definition update_error_prefix :: js_string where
  "update_error_prefix = [0x641, 0x634, 0x644, 0x3A, 0x20]"

text \<open>Line 56, "do you want to delete this token from the server?".\<close>

definition confirm_prompt :: js_string where
  "confirm_prompt = [0x647, 0x644, 0x20, 0x62A, 0x631, 0x64A, 0x62F, 0x20, 0x62D, 0x630,
                     0x641, 0x20, 0x647, 0x630, 0x627, 0x20, 0x627, 0x644, 0x62A, 0x648,
                     0x643, 0x646, 0x20, 0x645, 0x646, 0x20, 0x627, 0x644, 0x62E, 0x627,
                     0x62F, 0x645, 0x61F]"

text \<open>Line 65, "deleted".\<close>

definition deleted_text :: js_string where
  "deleted_text = [0x62A, 0x645, 0x20, 0x627, 0x644, 0x62D, 0x630, 0x641]"

text \<open>Line 67, "deletion failed".\<close>

definition delete_failed_text :: js_string where
  "delete_failed_text = [0x641, 0x634, 0x644, 0x20, 0x627, 0x644, 0x62D, 0x630, 0x641]"

text \<open>Line 69, "error".\<close>

definition delete_error_text :: js_string where
  "delete_error_text = [0x62E, 0x637, 0x623]"

definition json_headers :: "(js_string \<times> js_string) list" where
  "json_headers = [(ascii ''Content-Type'', ascii ''application/json'')]"

section \<open>The three click handlers\<close>

text \<open>
  Each handler is an async function that is suspended once, at the round trip to the
  service. Its model has a part that runs at the click, up to the call of \<open>fetch\<close>,
  and a part that runs when the round trip has ended, with the \<open>fetch_outcome\<close>;
  the handler is the two in a row. The result is the settled promise of the async
  function: \<open>Inr\<close> the world it leaves, \<open>Inl\<close> an error that no handler caught.
\<close>

subsection \<open>saveTokenBtn, lines 3 to 28\<close>

definition save_request :: "page \<Rightarrow> request" where
  "save_request p =
     (let token = trim (token_value p);
          label = (if trim (label_value p) \<noteq> [] then trim (label_value p)
                   else ascii ''default'')
      in \<lparr>url = apiBase @ ascii ''/api/save-token'',
          http_method = ascii ''POST'',
          headers = json_headers,
          body = JSON_stringify
                   (JObj [(ascii ''token'', JStr token), (ascii ''label'', JStr label)])\<rparr>)"

definition saveToken_start :: "world \<Rightarrow> world" where
  "saveToken_start w =
     w\<lparr>doc := (doc w)\<lparr>saveResult_text := saving_text\<rparr>,
       trace := trace w @ [Fetch (save_request (doc w))]\<rparr>"

text \<open>Lines 10 to 23, the \<open>try\<close> block after the call of \<open>fetch\<close>.\<close>

definition saveToken_try :: "fetch_outcome \<Rightarrow> world \<Rightarrow> js_error + world" where
  "saveToken_try out w =
     (case out of
        Rejected m \<Rightarrow> Inl (Fetch_failed m)
      | Not_json m \<Rightarrow> Inl (Json_failed m)
      | Parsed j \<Rightarrow>
          (case get_prop j (ascii ''ok'') of
             Inl e \<Rightarrow> Inl e
           | Inr ok \<Rightarrow>
               if truthy_opt ok then
                 (case get_prop j (ascii ''id'') of
                    Inl e \<Rightarrow> Inl e
                  | Inr i \<Rightarrow>
                      Inr (w\<lparr>doc := (doc w)
                             \<lparr>saveResult_text := saved_text,
                              tokenId_text := innerText_of i,
                              step1_classes := classList_add hidden (step1_classes (doc w)),
                              dashboard_classes :=
                                classList_remove hidden (dashboard_classes (doc w))\<rparr>\<rparr>))
               else
                 (case get_prop j (ascii ''error'') of
                    Inl e \<Rightarrow> Inl e
                  | Inr err \<Rightarrow>
                      Inr (w\<lparr>doc := (doc w)
                             \<lparr>saveResult_text := save_error_prefix @ error_or_dump err j\<rparr>\<rparr>))))"

text \<open>The \<open>try\<close> block with its \<open>catch\<close>, lines 24 to 27.\<close>

definition saveToken_resume :: "fetch_outcome \<Rightarrow> world \<Rightarrow> js_error + world" where
  "saveToken_resume out w =
     (case saveToken_try out w of
        Inr w' \<Rightarrow> Inr w'
      | Inl e \<Rightarrow>
          Inr (w\<lparr>doc := (doc w)\<lparr>saveResult_text := connection_error_text\<rparr>,
                 trace := trace w @ [Console_error e]\<rparr>))"

definition saveToken :: "fetch_outcome \<Rightarrow> world \<Rightarrow> js_error + world" where
  "saveToken out w = saveToken_resume out (saveToken_start w)"

subsection \<open>updateBioBtn, lines 30 to 52\<close>

definition update_request :: "page \<Rightarrow> request" where
  "update_request p =
     (let id = to_Number (tokenId_text p);
          newBio = newBio_value p
      in \<lparr>url = apiBase @ ascii ''/api/update-bio'',
          http_method = ascii ''POST'',
          headers = json_headers,
          body = JSON_stringify
                   (JObj [(ascii ''id'', number_json id), (ascii ''newBio'', JStr newBio)])\<rparr>)"

definition updateBio_start :: "world \<Rightarrow> world" where
  "updateBio_start w =
     w\<lparr>doc := (doc w)\<lparr>updateResult_text := updating_text\<rparr>,
       trace := trace w @ [Fetch (update_request (doc w))]\<rparr>"

text \<open>
  Lines 36 to 47. \<open>newBio\<close> is the local constant of line 32, read at the click.
\<close>

definition updateBio_try :: "js_string \<Rightarrow> fetch_outcome \<Rightarrow> world \<Rightarrow> js_error + world" where
  "updateBio_try newBio out w =
     (case out of
        Rejected m \<Rightarrow> Inl (Fetch_failed m)
      | Not_json m \<Rightarrow> Inl (Json_failed m)
      | Parsed j \<Rightarrow>
          (case get_prop j (ascii ''ok'') of
             Inl e \<Rightarrow> Inl e
           | Inr ok \<Rightarrow>
               if truthy_opt ok then
                 Inr (w\<lparr>doc := (doc w)
                        \<lparr>updateResult_text := updated_text, displayBio_text := newBio\<rparr>\<rparr>)
               else
                 (case get_prop j (ascii ''error'') of
                    Inl e \<Rightarrow> Inl e
                  | Inr err \<Rightarrow>
                      Inr (w\<lparr>doc := (doc w)
                             \<lparr>updateResult_text :=
                                update_error_prefix @ error_or_dump err j\<rparr>\<rparr>))))"

definition updateBio_resume :: "js_string \<Rightarrow> fetch_outcome \<Rightarrow> world \<Rightarrow> js_error + world" where
  "updateBio_resume newBio out w =
     (case updateBio_try newBio out w of
        Inr w' \<Rightarrow> Inr w'
      | Inl e \<Rightarrow>
          Inr (w\<lparr>doc := (doc w)\<lparr>updateResult_text := connection_error_text\<rparr>,
                 trace := trace w @ [Console_error e]\<rparr>))"

definition updateBio :: "fetch_outcome \<Rightarrow> world \<Rightarrow> js_error + world" where
  "updateBio out w = updateBio_resume (newBio_value (doc w)) out (updateBio_start w)"

subsection \<open>deleteTokenBtn, lines 54 to 71\<close>

definition delete_request :: "page \<Rightarrow> request" where
  "delete_request p =
     (let id = to_Number (tokenId_text p)
      in \<lparr>url = apiBase @ ascii ''/api/delete-token'',
          http_method = ascii ''POST'',
          headers = json_headers,
          body = JSON_stringify (JObj [(ascii ''id'', number_json id)])\<rparr>)"

text \<open>
  Lines 55 to 62, with the user's answer to \<open>confirm\<close>: the world at the call of
  \<open>fetch\<close> and \<open>True\<close>, or the world in which the handler has returned at line 56
  and \<open>False\<close>.
\<close>

definition deleteToken_start :: "bool \<Rightarrow> world \<Rightarrow> world \<times> bool" where
  "deleteToken_start confirmed w =
     (let request = delete_request (doc w);
          w1 = w\<lparr>trace := trace w @ [Confirm confirm_prompt]\<rparr>
      in if \<not> confirmed then (w1, False)
         else (w1\<lparr>trace := trace w1 @ [Fetch request]\<rparr>, True))"

text \<open>
  Lines 57 to 67. \<open>location.reload()\<close> replaces the document by the one the server
  sends, \<open>loaded\<close>: the page as its markup builds it.
\<close>

definition deleteToken_try :: "page \<Rightarrow> fetch_outcome \<Rightarrow> world \<Rightarrow> js_error + world" where
  "deleteToken_try loaded out w =
     (case out of
        Rejected m \<Rightarrow> Inl (Fetch_failed m)
      | Not_json m \<Rightarrow> Inl (Json_failed m)
      | Parsed j \<Rightarrow>
          (case get_prop j (ascii ''ok'') of
             Inl e \<Rightarrow> Inl e
           | Inr ok \<Rightarrow>
               if truthy_opt ok then
                 Inr (w\<lparr>doc := loaded, trace := trace w @ [Alert deleted_text, Reload]\<rparr>)
               else Inr (w\<lparr>trace := trace w @ [Alert delete_failed_text]\<rparr>)))"

definition deleteToken_resume :: "page \<Rightarrow> fetch_outcome \<Rightarrow> world \<Rightarrow> js_error + world" where
  "deleteToken_resume loaded out w =
     (case deleteToken_try loaded out w of
        Inr w' \<Rightarrow> Inr w'
      | Inl e \<Rightarrow> Inr (w\<lparr>trace := trace w @ [Alert delete_error_text]\<rparr>))"

definition deleteToken :: "page \<Rightarrow> bool \<Rightarrow> fetch_outcome \<Rightarrow> world \<Rightarrow> js_error + world" where
  "deleteToken loaded confirmed out w =
     (case deleteToken_start confirmed w of
        (w1, False) \<Rightarrow> Inr w1
      | (w1, True) \<Rightarrow> deleteToken_resume loaded out w1)"

section \<open>What the specification calls the session and the states of the UI\<close>

text \<open>
  The session identifier is the text of \<open>tokenId\<close>, read as update and delete read it;
  it is unset when the text is empty. An element is shown when its class list lacks
  \<open>hidden\<close>. Setup shows \<open>step1\<close> and hides \<open>dashboard\<close>; Dashboard is the reverse.
\<close>

definition session :: "page \<Rightarrow> number" where
  "session p = to_Number (tokenId_text p)"

definition shown :: "js_string list \<Rightarrow> bool" where
  "shown cs \<longleftrightarrow> hidden \<notin> set cs"

definition in_Setup :: "page \<Rightarrow> bool" where
  "in_Setup p \<longleftrightarrow> shown (step1_classes p) \<and> \<not> shown (dashboard_classes p)"

definition in_Dashboard :: "page \<Rightarrow> bool" where
  "in_Dashboard p \<longleftrightarrow> \<not> shown (step1_classes p) \<and> shown (dashboard_classes p)"

definition requests :: "event list \<Rightarrow> request list" where
  "requests es = concat (map (\<lambda>e. case e of Fetch r \<Rightarrow> [r] | _ \<Rightarrow> []) es)"

text \<open>A text contains another when the other is a run of consecutive code units of it.\<close>

fun contains :: "js_string \<Rightarrow> js_string \<Rightarrow> bool" where
  "contains [] t \<longleftrightarrow> t = []"
| "contains (c # cs) t \<longleftrightarrow> take (length t) (c # cs) = t \<or> contains cs t"

text \<open>An example page in the Setup state, and an example world.\<close>

definition example_page :: page where
  "example_page =
     \<lparr>token_value = ascii ''  abc 123 '', label_value = ascii '' '',
      newBio_value = ascii '' hello '', saveResult_text = [], updateResult_text = [],
      tokenId_text = [], displayBio_text = [], step1_classes = [],
      dashboard_classes = [hidden]\<rparr>"

definition example_world :: world where
  "example_world = \<lparr>doc = example_page, trace = []\<rparr>"

section \<open>Facts about the string and number conversions\<close>

subsection \<open>Printing an integer and reading it back\<close>

lemma unat_digit: "d < 10 \<Longrightarrow> unat (digit d) = 48 + d"
  unfolding digit_def by (subst unat_of_nat) simp

lemma is_digit_digit: "d < 10 \<Longrightarrow> is_digit (digit d)"
  by (simp add: is_digit_def unat_digit)

lemma is_digit_not_white: "is_digit c \<Longrightarrow> \<not> is_white_space c"
  by (auto simp: is_digit_def is_white_space_def)

lemma is_digit_not_sign: "is_digit c \<Longrightarrow> c \<noteq> 0x2D \<and> c \<noteq> 0x2B"
  by (auto simp: is_digit_def)

lemma minus_not_white: "\<not> is_white_space 0x2D"
  by (simp add: is_white_space_def)

lemma digits_nonempty: "digits n \<noteq> []"
  by (induction n rule: digits.induct) (simp add: digits.simps)

lemma digits_all_digit: "list_all is_digit (digits n)"
proof (induction n rule: digits.induct)
  case (1 n)
  show ?case
  proof (cases "n < 10")
    case True
    then show ?thesis by (simp add: digits.simps [of n] is_digit_digit)
  next
    case False
    with "1" show ?thesis by (simp add: digits.simps [of n] is_digit_digit)
  qed
qed

lemma digits_value_snoc: "digits_value (cs @ [c]) = 10 * digits_value cs + (unat c - 48)"
  by (simp add: digits_value_def)

lemma digits_value_digits: "digits_value (digits n) = n"
proof (induction n rule: digits.induct)
  case (1 n)
  show ?case
  proof (cases "n < 10")
    case True
    then show ?thesis by (simp add: digits.simps [of n] digits_value_def unat_digit)
  next
    case False
    with "1" show ?thesis by (simp add: digits.simps [of n] digits_value_snoc unat_digit)
  qed
qed

subsection \<open>What trim removes\<close>

lemma trim_id: "s \<noteq> [] \<Longrightarrow> \<not> is_white_space (hd s) \<Longrightarrow> \<not> is_white_space (last s) \<Longrightarrow> trim s = s"
proof -
  assume a: "s \<noteq> []" "\<not> is_white_space (hd s)" "\<not> is_white_space (last s)"
  from a have 1: "dropWhile is_white_space s = s" by (cases s) simp_all
  from a have "rev s \<noteq> []" "\<not> is_white_space (hd (rev s))" by (simp_all add: hd_rev)
  then have 2: "dropWhile is_white_space (rev s) = rev s" by (cases "rev s") simp_all
  show ?thesis by (simp add: trim_def 1 2)
qed

lemma trim_decomp:
  "\<exists>pre post. s = pre @ trim s @ post \<and> list_all is_white_space pre \<and> list_all is_white_space post"
proof -
  let ?a = "takeWhile is_white_space s"
  let ?r = "dropWhile is_white_space s"
  let ?b = "takeWhile is_white_space (rev ?r)"
  have "rev ?r = ?b @ dropWhile is_white_space (rev ?r)" by simp
  then have "?r = rev (dropWhile is_white_space (rev ?r)) @ rev ?b"
    by (metis rev_append rev_rev_ident)
  then have "s = ?a @ trim s @ rev ?b"
    by (metis takeWhile_dropWhile_id trim_def)
  moreover have "list_all is_white_space ?a"
    by (simp add: list_all_iff) (meson set_takeWhileD)
  moreover have "list_all is_white_space (rev ?b)"
    by (simp add: list_all_iff) (meson set_takeWhileD)
  ultimately show ?thesis by blast
qed

lemma last_dropWhile_nonempty:
  "dropWhile P xs \<noteq> [] \<Longrightarrow> last (dropWhile P xs) = last xs"
proof -
  assume a: "dropWhile P xs \<noteq> []"
  have "last (takeWhile P xs @ dropWhile P xs) = last (dropWhile P xs)"
    using a by (rule last_appendR)
  then show ?thesis by simp
qed

lemma trim_ends:
  "trim s = [] \<or> (\<not> is_white_space (hd (trim s)) \<and> \<not> is_white_space (last (trim s)))"
proof (cases "trim s = []")
  case True
  then show ?thesis by simp
next
  case False
  let ?r = "dropWhile is_white_space s"
  let ?q = "dropWhile is_white_space (rev ?r)"
  from False have q: "?q \<noteq> []" by (simp add: trim_def)
  then have hq: "\<not> is_white_space (hd ?q)" by (rule hd_dropWhile)
  have t: "trim s = rev ?q" by (simp add: trim_def)
  from q hq have l: "\<not> is_white_space (last (trim s))" by (simp add: t last_rev)
  from q have r: "?r \<noteq> []" by (metis dropWhile.simps(1) rev.simps(1))
  then have hr: "\<not> is_white_space (hd ?r)" by (rule hd_dropWhile)
  have "hd (trim s) = last ?q" using q by (simp add: t hd_rev)
  also have "\<dots> = last (rev ?r)" using q by (rule last_dropWhile_nonempty)
  also have "\<dots> = hd ?r" using r by (simp add: last_rev)
  finally have "hd (trim s) = hd ?r" .
  with hr l show ?thesis by simp
qed

lemma trim_blank: "trim s = [] \<longleftrightarrow> list_all is_white_space s"
proof
  assume "list_all is_white_space s"
  then have e: "dropWhile is_white_space s = []" by (metis dropWhile_eq_Nil_conv list_all_iff)
  show "trim s = []" unfolding trim_def e by simp
next
  assume a: "trim s = []"
  let ?r = "dropWhile is_white_space s"
  have "?r = []"
  proof (rule ccontr)
    assume r: "?r \<noteq> []"
    then have "\<not> is_white_space (hd ?r)" by (rule hd_dropWhile)
    moreover from a have "\<forall>x \<in> set ?r. is_white_space x" by (simp add: trim_def)
    ultimately show False using r by (meson hd_in_set)
  qed
  then show "list_all is_white_space s" by (metis dropWhile_eq_Nil_conv list_all_iff)
qed

subsection \<open>The identifier display read back as a number\<close>

lemma trim_digits: "trim (digits n) = digits n"
proof (rule trim_id)
  show "digits n \<noteq> []" by (rule digits_nonempty)
  have "\<forall>c \<in> set (digits n). is_digit c" using digits_all_digit [of n] by (simp add: list_all_iff)
  then show "\<not> is_white_space (hd (digits n))" "\<not> is_white_space (last (digits n))"
    using digits_nonempty [of n] by (meson hd_in_set is_digit_not_white, meson last_in_set is_digit_not_white)
qed

lemma to_Number_digits: "to_Number (digits n) = Finite (int n)"
proof -
  obtain c cs where d: "digits n = c # cs" using digits_nonempty [of n] by (cases "digits n") auto
  have "is_digit c" using digits_all_digit [of n] by (simp add: d)
  then have "c \<noteq> 0x2D" "c \<noteq> 0x2B" using is_digit_not_sign by auto
  moreover have "decimal_digits (digits n)" by (simp add: decimal_digits_def digits_nonempty digits_all_digit)
  moreover have "trim (c # cs) = c # cs" using trim_digits [of n] by (simp add: d)
  moreover have "digits_value (c # cs) = n" using digits_value_digits [of n] by (simp add: d)
  ultimately show ?thesis
    by (simp add: to_Number_def d)
qed

lemma to_Number_minus_digits: "to_Number (0x2D # digits n) = Finite (- int n)"
proof -
  have "\<forall>c \<in> set (digits n). is_digit c" using digits_all_digit [of n] by (simp add: list_all_iff)
  then have "\<not> is_white_space (last (digits n))"
    using digits_nonempty [of n] by (meson last_in_set is_digit_not_white)
  then have "trim (0x2D # digits n) = 0x2D # digits n"
    by (intro trim_id) (simp_all add: minus_not_white digits_nonempty)
  moreover have "decimal_digits (digits n)" by (simp add: decimal_digits_def digits_nonempty digits_all_digit)
  ultimately show ?thesis by (simp add: to_Number_def digits_value_digits)
qed

text \<open>
  The two model functions are inverse on every integer; they are JavaScript's
  conversions on the safe integers, where the claims use this.
\<close>

lemma to_Number_toString: "to_Number (Number_toString n) = Finite n"
  by (simp add: Number_toString_def to_Number_digits to_Number_minus_digits)

subsection \<open>Containment\<close>

lemma contains_prefix: "contains (t @ b) t"
proof (cases "t @ b")
  case Nil
  then show ?thesis by simp
next
  case (Cons c cs)
  have "take (length t) (t @ b) = t" by simp
  then show ?thesis unfolding Cons by simp
qed

lemma contains_infix: "contains (a @ t @ b) t"
  by (induction a) (simp_all add: contains_prefix)

section \<open>Facts about the handlers\<close>

lemmas save_defs = saveToken_def saveToken_resume_def saveToken_try_def saveToken_start_def
lemmas update_defs = updateBio_def updateBio_resume_def updateBio_try_def updateBio_start_def
lemmas delete_defs = deleteToken_def deleteToken_resume_def deleteToken_try_def deleteToken_start_def

lemma requests_append: "requests (es @ fs) = requests es @ requests fs"
  by (simp add: requests_def)

lemma requests_simps:
  "requests [] = []"
  "requests (Fetch r # es) = r # requests es"
  "requests (Console_error e # es) = requests es"
  "requests (Confirm s # es) = requests es"
  "requests (Alert s # es) = requests es"
  "requests (Reload # es) = requests es"
  by (simp_all add: requests_def)

lemma not_shown_add: "\<not> shown (classList_add hidden cs)"
  by (simp add: shown_def classList_add_def)

lemma shown_remove: "shown (classList_remove hidden cs)"
  by (simp add: shown_def classList_remove_def)

lemma JSON_stringify_nonempty: "JSON_stringify j \<noteq> []"
  by (cases j) (simp_all add: ascii_def quote_def Number_toString_def digits_nonempty)

lemma contains_Nil: "contains s []"
  by (cases s) simp_all

text \<open>Whatever the round trip brings, a handler issues its one request and returns.\<close>

lemma saveToken_requests:
  "\<exists>w'. saveToken out w = Inr w' \<and> requests (trace w') = requests (trace w) @ [save_request (doc w)]"
  by (auto simp: save_defs requests_append requests_simps split: fetch_outcome.splits sum.splits)

lemma updateBio_requests:
  "\<exists>w'. updateBio out w = Inr w' \<and> requests (trace w') = requests (trace w) @ [update_request (doc w)]"
  by (auto simp: update_defs requests_append requests_simps split: fetch_outcome.splits sum.splits)

lemma deleteToken_requests:
  "\<exists>w'. deleteToken loaded True out w = Inr w' \<and> requests (trace w') = requests (trace w) @ [delete_request (doc w)]"
  by (auto simp: delete_defs requests_append requests_simps split: fetch_outcome.splits sum.splits)

text \<open>The definitions that evaluate the examples.\<close>

lemmas eval_defs = ascii_def quote_def is_high_surrogate_def is_low_surrogate_def trim_def
  is_white_space_def example_world_def example_page_def hidden_def apiBase_def json_headers_def
  in_Setup_def in_Dashboard_def shown_def

section \<open>The claims\<close>

text \<open>
  C1. SaveToken, response with \<open>ok\<close> true and an integer \<open>id\<close> (such as
  \<open>{ok:true, id:42}\<close>) that a Number holds exactly, \<open>\<bar>id\<bar> < 2 ^ 53\<close>: the identifier
  display gets the decimal text of the id, so the session identifier, read back as update
  and delete read it, is that id; the success message is shown; the page, in Setup at
  the click and while the request is in flight, is in Dashboard when the handler ends
  (\<open>step1\<close> hidden, \<open>dashboard\<close> revealed).
\<close>

theorem save_success_enters_dashboard:
  assumes "map_of kvs (ascii ''ok'') = Some (JBool True)"
    and "map_of kvs (ascii ''id'') = Some (JNum n)"
    and "safe_integer n"
    and "in_Setup (doc w)"
  shows "\<exists>w'. saveToken (Parsed (JObj kvs)) w = Inr w'
           \<and> tokenId_text (doc w') = Number_toString n
           \<and> session (doc w') = Finite n
           \<and> saveResult_text (doc w') = saved_text
           \<and> in_Setup (doc (saveToken_start w))
           \<and> in_Dashboard (doc w')"
  using assms
  by (simp add: save_defs session_def to_Number_toString in_Setup_def in_Dashboard_def
      not_shown_add shown_remove)

theorem save_success_enters_dashboard_witness:
  "\<exists>w'. saveToken (Parsed (JObj [(ascii ''ok'', JBool True), (ascii ''id'', JNum 42)]))
            example_world = Inr w'
           \<and> tokenId_text (doc w') = ascii ''42''
           \<and> session (doc w') = Finite 42
           \<and> saveResult_text (doc w') = saved_text
           \<and> in_Setup (doc (saveToken_start example_world))
           \<and> in_Dashboard (doc w')"
proof -
  let ?j = "[(ascii ''ok'', JBool True), (ascii ''id'', JNum 42)]"
  have ok: "map_of ?j (ascii ''ok'') = Some (JBool True)" by (simp add: ascii_def)
  have id: "map_of ?j (ascii ''id'') = Some (JNum 42)" by (simp add: ascii_def)
  have sf: "safe_integer 42" by (simp add: safe_integer_def)
  have st: "in_Setup (doc example_world)" by (simp add: eval_defs)
  have t: "Number_toString 42 = ascii ''42''"
    by (simp add: Number_toString_def digits.simps digit_def ascii_def)
  from save_success_enters_dashboard [OF ok id sf st] show ?thesis unfolding t .
qed

text \<open>
  C2, as amended. A transport or parse failure (\<open>fetch\<close> rejects, or the body is not
  JSON) never leaves a handler with an uncaught error. SaveToken and UpdateBio set their
  status text to one fixed message (connection error) and send the error to the
  console and nowhere else. DeleteToken shows an alert with another fixed text (error);
  it changes nothing on the page and sends nothing to the console.
\<close>

theorem transport_failure_reported:
  "saveToken (Rejected m) w =
     Inr (w\<lparr>doc := (doc w)\<lparr>saveResult_text := connection_error_text\<rparr>,
            trace := trace w @ [Fetch (save_request (doc w)), Console_error (Fetch_failed m)]\<rparr>)
   \<and> saveToken (Not_json m) w =
     Inr (w\<lparr>doc := (doc w)\<lparr>saveResult_text := connection_error_text\<rparr>,
            trace := trace w @ [Fetch (save_request (doc w)), Console_error (Json_failed m)]\<rparr>)
   \<and> updateBio (Rejected m) w =
     Inr (w\<lparr>doc := (doc w)\<lparr>updateResult_text := connection_error_text\<rparr>,
            trace := trace w @ [Fetch (update_request (doc w)), Console_error (Fetch_failed m)]\<rparr>)
   \<and> updateBio (Not_json m) w =
     Inr (w\<lparr>doc := (doc w)\<lparr>updateResult_text := connection_error_text\<rparr>,
            trace := trace w @ [Fetch (update_request (doc w)), Console_error (Json_failed m)]\<rparr>)
   \<and> deleteToken loaded True (Rejected m) w =
     Inr (w\<lparr>trace := trace w @ [Confirm confirm_prompt, Fetch (delete_request (doc w)),
                                  Alert delete_error_text]\<rparr>)
   \<and> deleteToken loaded True (Not_json m) w =
     Inr (w\<lparr>trace := trace w @ [Confirm confirm_prompt, Fetch (delete_request (doc w)),
                                  Alert delete_error_text]\<rparr>)"
  by (simp add: save_defs update_defs delete_defs)

theorem transport_failure_reported_witness:
  "saveToken (Not_json (ascii ''Unexpected token <'')) example_world =
     Inr \<lparr>doc = example_page\<lparr>saveResult_text := connection_error_text\<rparr>,
          trace = [Fetch (save_request example_page),
                   Console_error (Json_failed (ascii ''Unexpected token <''))]\<rparr>
   \<and> deleteToken example_page True (Not_json (ascii ''Unexpected token <'')) example_world =
     Inr \<lparr>doc = example_page,
          trace = [Confirm confirm_prompt, Fetch (delete_request example_page),
                   Alert delete_error_text]\<rparr>"
  using transport_failure_reported [of "ascii ''Unexpected token <''" example_world example_page]
  by (simp add: example_world_def)

text \<open>
  C2 as stated asks for the same report from all three operations, the detail going to
  the diagnostic log. After a rejected \<open>fetch\<close>, DeleteToken has logged nothing, and
  the text it shows is not the one SaveToken and UpdateBio show.
\<close>

theorem delete_failure_leaves_no_log:
  "deleteToken example_page True (Rejected (ascii ''Failed to fetch'')) example_world =
     Inr \<lparr>doc = example_page,
          trace = [Confirm confirm_prompt, Fetch (delete_request example_page),
                   Alert delete_error_text]\<rparr>
   \<and> Console_error (Fetch_failed (ascii ''Failed to fetch''))
       \<notin> set [Confirm confirm_prompt, Fetch (delete_request example_page),
                Alert delete_error_text]
   \<and> delete_error_text \<noteq> connection_error_text"
  by (simp add: delete_defs example_world_def delete_error_text_def connection_error_text_def)

text \<open>
  C3, as amended. A failed save or update (response with \<open>ok\<close> false) shows the
  operation's prefix followed by the \<open>error\<close> field when that field is there and is
  not the empty string; when the field is missing or is the empty string, the prefix is
  followed by the \<open>JSON.stringify\<close> text of the whole response, which is never empty.
\<close>

theorem failure_message_from_error_or_dump:
  assumes "map_of kvs (ascii ''ok'') = Some (JBool False)"
  shows "\<exists>w' u'. saveToken (Parsed (JObj kvs)) w = Inr w'
           \<and> updateBio (Parsed (JObj kvs)) w = Inr u'
           \<and> (\<forall>s. map_of kvs (ascii ''error'') = Some (JStr s) \<and> s \<noteq> []
                  \<longrightarrow> saveResult_text (doc w') = save_error_prefix @ s
                    \<and> updateResult_text (doc u') = update_error_prefix @ s)
           \<and> (map_of kvs (ascii ''error'') = None \<or> map_of kvs (ascii ''error'') = Some (JStr [])
                  \<longrightarrow> saveResult_text (doc w') = save_error_prefix @ JSON_stringify (JObj kvs)
                    \<and> updateResult_text (doc u') = update_error_prefix @ JSON_stringify (JObj kvs)
                    \<and> JSON_stringify (JObj kvs) \<noteq> [])"
  using assms JSON_stringify_nonempty [of "JObj kvs"]
  by (auto simp: save_defs update_defs)

theorem failure_message_from_error_or_dump_witness:
  "(\<exists>w' u'. saveToken (Parsed (JObj [(ascii ''ok'', JBool False),
                                         (ascii ''error'', JStr (ascii ''dup''))]))
               example_world = Inr w'
           \<and> updateBio (Parsed (JObj [(ascii ''ok'', JBool False),
                                      (ascii ''error'', JStr (ascii ''dup''))]))
               example_world = Inr u'
           \<and> saveResult_text (doc w') = save_error_prefix @ ascii ''dup''
           \<and> updateResult_text (doc u') = update_error_prefix @ ascii ''dup'')
   \<and> (\<exists>w' u'. saveToken (Parsed (JObj [(ascii ''ok'', JBool False)])) example_world = Inr w'
           \<and> updateBio (Parsed (JObj [(ascii ''ok'', JBool False)])) example_world = Inr u'
           \<and> saveResult_text (doc w') = save_error_prefix @
                [0x7B, 0x22, 0x6F, 0x6B, 0x22, 0x3A, 0x66, 0x61, 0x6C, 0x73, 0x65, 0x7D]
           \<and> updateResult_text (doc u') = update_error_prefix @
                [0x7B, 0x22, 0x6F, 0x6B, 0x22, 0x3A, 0x66, 0x61, 0x6C, 0x73, 0x65, 0x7D])"
proof -
  let ?dup = "[(ascii ''ok'', JBool False), (ascii ''error'', JStr (ascii ''dup''))]"
  let ?bare = "[(ascii ''ok'', JBool False)]"
  have ok1: "map_of ?dup (ascii ''ok'') = Some (JBool False)" by (simp add: ascii_def)
  have er1: "map_of ?dup (ascii ''error'') = Some (JStr (ascii ''dup'')) \<and> ascii ''dup'' \<noteq> []"
    by (simp add: ascii_def)
  have ok2: "map_of ?bare (ascii ''ok'') = Some (JBool False)" by (simp add: ascii_def)
  have er2: "map_of ?bare (ascii ''error'') = None" by (simp add: ascii_def)
  have dump: "JSON_stringify (JObj ?bare) =
      [0x7B, 0x22, 0x6F, 0x6B, 0x22, 0x3A, 0x66, 0x61, 0x6C, 0x73, 0x65, 0x7D]"
    by (simp add: ascii_def quote_def is_high_surrogate_def is_low_surrogate_def)
  from failure_message_from_error_or_dump [OF ok1, of example_world] er1
  have 1: "\<exists>w' u'. saveToken (Parsed (JObj ?dup)) example_world = Inr w'
           \<and> updateBio (Parsed (JObj ?dup)) example_world = Inr u'
           \<and> saveResult_text (doc w') = save_error_prefix @ ascii ''dup''
           \<and> updateResult_text (doc u') = update_error_prefix @ ascii ''dup''"
    by blast
  from failure_message_from_error_or_dump [OF ok2, of example_world] er2 dump
  have 2: "\<exists>w' u'. saveToken (Parsed (JObj ?bare)) example_world = Inr w'
           \<and> updateBio (Parsed (JObj ?bare)) example_world = Inr u'
           \<and> saveResult_text (doc w') = save_error_prefix @
                [0x7B, 0x22, 0x6F, 0x6B, 0x22, 0x3A, 0x66, 0x61, 0x6C, 0x73, 0x65, 0x7D]
           \<and> updateResult_text (doc u') = update_error_prefix @
                [0x7B, 0x22, 0x6F, 0x6B, 0x22, 0x3A, 0x66, 0x61, 0x6C, 0x73, 0x65, 0x7D]"
    by metis
  from 1 2 show ?thesis by blast
qed

text \<open>
  C3 as stated takes the message from the \<open>error\<close> field whenever the field is
  present. In the response below the field is present, and is the empty string: the
  message is the prefix followed by the text of the whole response, 23 code units from
  the opening to the closing brace, not by the field.
\<close>

theorem empty_error_field_is_dumped:
  "saveToken (Parsed (JObj [(ascii ''ok'', JBool False), (ascii ''error'', JStr [])]))
     example_world =
     Inr \<lparr>doc = example_page
            \<lparr>saveResult_text := save_error_prefix @
               [0x7B, 0x22, 0x6F, 0x6B, 0x22, 0x3A, 0x66, 0x61, 0x6C, 0x73, 0x65, 0x2C, 0x22,
                0x65, 0x72, 0x72, 0x6F, 0x72, 0x22, 0x3A, 0x22, 0x22, 0x7D]\<rparr>,
          trace = [Fetch (save_request example_page)]\<rparr>
   \<and> save_error_prefix @
        [0x7B, 0x22, 0x6F, 0x6B, 0x22, 0x3A, 0x66, 0x61, 0x6C, 0x73, 0x65, 0x2C, 0x22,
         0x65, 0x72, 0x72, 0x6F, 0x72, 0x22, 0x3A, 0x22, 0x22, 0x7D]
       \<noteq> save_error_prefix @ []"
  by (simp add: save_defs example_world_def ascii_def quote_def is_high_surrogate_def
      is_low_surrogate_def)

text \<open>
  C4. SaveToken, response with \<open>ok\<close> false (such as one with the error \<open>dup\<close>):
  the class lists of \<open>step1\<close> and \<open>dashboard\<close> and the identifier display are as
  they were, so a page in Setup stays in Setup with its session identifier; and when
  the response has an \<open>error\<close> text, the status message contains it.
\<close>

theorem save_failure_stays_in_setup:
  assumes "map_of kvs (ascii ''ok'') = Some (JBool False)"
  shows "\<exists>w'. saveToken (Parsed (JObj kvs)) w = Inr w'
           \<and> step1_classes (doc w') = step1_classes (doc w)
           \<and> dashboard_classes (doc w') = dashboard_classes (doc w)
           \<and> in_Setup (doc w') = in_Setup (doc w)
           \<and> tokenId_text (doc w') = tokenId_text (doc w)
           \<and> (\<forall>s. map_of kvs (ascii ''error'') = Some (JStr s)
                  \<longrightarrow> contains (saveResult_text (doc w')) s)"
proof -
  have c: "contains (save_error_prefix @ error_or_dump (Some (JStr s)) (JObj kvs)) s" for s
  proof (cases "s = []")
    case True
    then show ?thesis by (simp add: contains_Nil)
  next
    case False
    then show ?thesis using contains_infix [of save_error_prefix s "[]"] by simp
  qed
  show ?thesis using assms c
    by (simp add: save_defs in_Setup_def)
qed

theorem save_failure_stays_in_setup_witness:
  "\<exists>w'. saveToken (Parsed (JObj [(ascii ''ok'', JBool False),
                                  (ascii ''error'', JStr (ascii ''dup''))]))
            example_world = Inr w'
      \<and> in_Setup (doc w')
      \<and> tokenId_text (doc w') = []
      \<and> contains (saveResult_text (doc w')) (ascii ''dup'')"
proof -
  let ?dup = "[(ascii ''ok'', JBool False), (ascii ''error'', JStr (ascii ''dup''))]"
  have ok: "map_of ?dup (ascii ''ok'') = Some (JBool False)" by (simp add: ascii_def)
  have er: "map_of ?dup (ascii ''error'') = Some (JStr (ascii ''dup''))" by (simp add: ascii_def)
  have st: "in_Setup (doc example_world)" "tokenId_text (doc example_world) = []"
    by (simp_all add: eval_defs)
  from save_failure_stays_in_setup [OF ok, of example_world] er st
  show ?thesis by metis
qed

text \<open>
  C5. SaveToken, whatever the round trip brings: the one request issued has a body
  \<open>{token, label}\<close> whose token \<open>t\<close> is the token input without its leading and
  trailing white space: the input is \<open>t\<close> between two runs of white space, and \<open>t\<close>
  neither begins nor ends with white space.
\<close>

theorem save_sends_trimmed_token:
  "\<exists>w' t l pre post. saveToken out w = Inr w'
      \<and> requests (trace w') = requests (trace w) @
           [\<lparr>url = ascii ''/api/save-token'', http_method = ascii ''POST'',
             headers = [(ascii ''Content-Type'', ascii ''application/json'')],
             body = JSON_stringify (JObj [(ascii ''token'', JStr t), (ascii ''label'', JStr l)])\<rparr>]
      \<and> token_value (doc w) = pre @ t @ post
      \<and> list_all is_white_space pre \<and> list_all is_white_space post
      \<and> (t = [] \<or> \<not> is_white_space (hd t) \<and> \<not> is_white_space (last t))"
proof -
  obtain w' where w': "saveToken out w = Inr w'"
    "requests (trace w') = requests (trace w) @ [save_request (doc w)]"
    using saveToken_requests by blast
  obtain pre post where d: "token_value (doc w) = pre @ trim (token_value (doc w)) @ post"
    "list_all is_white_space pre" "list_all is_white_space post"
    using trim_decomp by blast
  let ?l = "if trim (label_value (doc w)) \<noteq> [] then trim (label_value (doc w))
            else ascii ''default''"
  have r: "save_request (doc w) =
       \<lparr>url = ascii ''/api/save-token'', http_method = ascii ''POST'',
        headers = [(ascii ''Content-Type'', ascii ''application/json'')],
        body = JSON_stringify (JObj [(ascii ''token'', JStr (trim (token_value (doc w)))),
                                     (ascii ''label'', JStr ?l)])\<rparr>"
    by (simp add: save_request_def apiBase_def json_headers_def)
  from w' d r trim_ends [of "token_value (doc w)"] show ?thesis by metis
qed

text \<open>
  For a token input of two spaces, \<open>abc 123\<close> and a space, and a blank label, the
  body is the JSON text of the token \<open>abc 123\<close> and the label \<open>default\<close>.
\<close>

theorem example_save_request_body:
  "\<exists>w'. saveToken (Rejected []) example_world = Inr w'
      \<and> token_value (doc example_world) = ascii ''  abc 123 ''
      \<and> map body (requests (trace w')) =
           [[0x7B, 0x22, 0x74, 0x6F, 0x6B, 0x65, 0x6E, 0x22, 0x3A, 0x22, 0x61, 0x62, 0x63, 0x20,
             0x31, 0x32, 0x33, 0x22, 0x2C, 0x22, 0x6C, 0x61, 0x62, 0x65, 0x6C, 0x22, 0x3A, 0x22,
             0x64, 0x65, 0x66, 0x61, 0x75, 0x6C, 0x74, 0x22, 0x7D]]"
  by (simp add: save_defs save_request_def requests_append requests_simps eval_defs)

text \<open>
  C6. SaveToken with a label input that is empty or all white space: the label in the
  body of the request is \<open>default\<close>.
\<close>

theorem save_blank_label_sends_default:
  assumes "list_all is_white_space (label_value (doc w))"
  shows "\<exists>w'. saveToken out w = Inr w'
      \<and> requests (trace w') = requests (trace w) @
           [\<lparr>url = ascii ''/api/save-token'', http_method = ascii ''POST'',
             headers = [(ascii ''Content-Type'', ascii ''application/json'')],
             body = JSON_stringify (JObj [(ascii ''token'', JStr (trim (token_value (doc w)))),
                                          (ascii ''label'', JStr (ascii ''default''))])\<rparr>]"
proof -
  from assms have "trim (label_value (doc w)) = []" by (simp add: trim_blank)
  then have "save_request (doc w) =
       \<lparr>url = ascii ''/api/save-token'', http_method = ascii ''POST'',
        headers = [(ascii ''Content-Type'', ascii ''application/json'')],
        body = JSON_stringify (JObj [(ascii ''token'', JStr (trim (token_value (doc w)))),
                                     (ascii ''label'', JStr (ascii ''default''))])\<rparr>"
    by (simp add: save_request_def apiBase_def json_headers_def)
  with saveToken_requests [of out w] show ?thesis by simp
qed

theorem save_blank_label_sends_default_witness:
  "label_value (doc example_world) = ascii '' ''
   \<and> (\<exists>w'. saveToken (Parsed JNull) example_world = Inr w'
      \<and> requests (trace w') =
           [\<lparr>url = ascii ''/api/save-token'', http_method = ascii ''POST'',
             headers = [(ascii ''Content-Type'', ascii ''application/json'')],
             body = JSON_stringify (JObj [(ascii ''token'', JStr (ascii ''abc 123'')),
                                          (ascii ''label'', JStr (ascii ''default''))])\<rparr>])"
proof -
  have blank: "list_all is_white_space (label_value (doc example_world))"
    by (simp add: eval_defs)
  have t: "trim (token_value (doc example_world)) = ascii ''abc 123''"
    by (simp add: eval_defs)
  have e: "requests (trace example_world) = []"
    by (simp add: example_world_def requests_simps)
  have l: "label_value (doc example_world) = ascii '' ''"
    by (simp add: example_world_def example_page_def)
  from save_blank_label_sends_default [OF blank, of "Parsed JNull"] t e l
  show ?thesis by simp
qed

text \<open>
  C7. UpdateBio, response with \<open>ok\<close> true: the current-bio display becomes the
  text of the \<open>newBio\<close> input as it was at the click, unchanged and untrimmed (the empty
  text included); the success message is shown and the UI state is as it was. In the
  examples the display holds an older bio at the click; it becomes \<open>hello\<close> with the
  space before and the space after it, and it becomes empty for the empty input.
\<close>

theorem update_success_shows_newBio:
  assumes "map_of kvs (ascii ''ok'') = Some (JBool True)"
  shows "\<exists>w'. updateBio (Parsed (JObj kvs)) w = Inr w'
           \<and> displayBio_text (doc w') = newBio_value (doc w)
           \<and> updateResult_text (doc w') = updated_text
           \<and> in_Dashboard (doc w') = in_Dashboard (doc w)"
  using assms by (simp add: update_defs in_Dashboard_def)

theorem update_success_shows_newBio_witness:
  "(\<exists>w'. updateBio (Parsed (JObj [(ascii ''ok'', JBool True)]))
             (example_world\<lparr>doc := example_page\<lparr>displayBio_text := ascii ''old bio''\<rparr>\<rparr>)
             = Inr w'
       \<and> displayBio_text (doc w') = ascii '' hello ''
       \<and> displayBio_text (doc w') \<noteq> ascii ''old bio''
       \<and> displayBio_text (doc w') \<noteq> trim (ascii '' hello '')
       \<and> updateResult_text (doc w') = updated_text)
   \<and> (\<exists>w'. updateBio (Parsed (JObj [(ascii ''ok'', JBool True)]))
             (example_world\<lparr>doc := example_page\<lparr>newBio_value := [],
                                                  displayBio_text := ascii ''old bio''\<rparr>\<rparr>)
             = Inr w'
       \<and> displayBio_text (doc w') = []
       \<and> updateResult_text (doc w') = updated_text)"
proof -
  let ?w1 = "example_world\<lparr>doc := example_page\<lparr>displayBio_text := ascii ''old bio''\<rparr>\<rparr>"
  let ?w2 = "example_world\<lparr>doc := example_page\<lparr>newBio_value := [],
                                                   displayBio_text := ascii ''old bio''\<rparr>\<rparr>"
  have ok: "map_of [(ascii ''ok'', JBool True)] (ascii ''ok'') = Some (JBool True)"
    by simp
  have b1: "newBio_value (doc ?w1) = ascii '' hello ''" by (simp add: example_page_def)
  have b2: "newBio_value (doc ?w2) = []" by simp
  have d: "ascii '' hello '' \<noteq> ascii ''old bio''"
    "ascii '' hello '' \<noteq> trim (ascii '' hello '')"
    by (simp_all add: ascii_def trim_def is_white_space_def)
  from update_success_shows_newBio [OF ok, of ?w1] b1 d
  have 1: "\<exists>w'. updateBio (Parsed (JObj [(ascii ''ok'', JBool True)])) ?w1 = Inr w'
       \<and> displayBio_text (doc w') = ascii '' hello ''
       \<and> displayBio_text (doc w') \<noteq> ascii ''old bio''
       \<and> displayBio_text (doc w') \<noteq> trim (ascii '' hello '')
       \<and> updateResult_text (doc w') = updated_text"
    by auto
  from update_success_shows_newBio [OF ok, of ?w2] b2
  have 2: "\<exists>w'. updateBio (Parsed (JObj [(ascii ''ok'', JBool True)])) ?w2 = Inr w'
       \<and> displayBio_text (doc w') = []
       \<and> updateResult_text (doc w') = updated_text"
    by auto
  from 1 2 show ?thesis by blast
qed

text \<open>
  C8. DeleteToken, the user declines the confirmation: the handler returns after the
  prompt; no request is issued and the page is as it was.
\<close>

theorem delete_declined_is_noop:
  "\<exists>w'. deleteToken loaded False out w = Inr w'
      \<and> doc w' = doc w
      \<and> requests (trace w') = requests (trace w)
      \<and> trace w' = trace w @ [Confirm confirm_prompt]"
  by (simp add: delete_defs requests_append requests_simps)

text \<open>
  C9. DeleteToken, confirmed, response with \<open>ok\<close> true: after the request, the alert
  of line 65 (deleted) is shown and then the page is reloaded. The document is then the
  one the markup builds; with a markup whose identifier display is empty and whose state
  is Setup, the session identifier is unset again and the UI is back in Setup.
\<close>

theorem delete_success_reloads:
  assumes "map_of kvs (ascii ''ok'') = Some (JBool True)"
    and "tokenId_text loaded = []"
    and "in_Setup loaded"
  shows "\<exists>w'. deleteToken loaded True (Parsed (JObj kvs)) w = Inr w'
           \<and> trace w' = trace w @ [Confirm confirm_prompt, Fetch (delete_request (doc w)),
                                     Alert deleted_text, Reload]
           \<and> doc w' = loaded
           \<and> tokenId_text (doc w') = []
           \<and> session (doc w') = Finite 0
           \<and> in_Setup (doc w')"
  using assms by (simp add: delete_defs session_def to_Number_def trim_def)

theorem delete_success_reloads_witness:
  "\<exists>w'. deleteToken example_page True (Parsed (JObj [(ascii ''ok'', JBool True)]))
            (example_world\<lparr>doc := example_page\<lparr>tokenId_text := ascii ''42''\<rparr>\<rparr>) = Inr w'
      \<and> trace w' = [Confirm confirm_prompt,
                     Fetch (delete_request (example_page\<lparr>tokenId_text := ascii ''42''\<rparr>)),
                     Alert deleted_text, Reload]
      \<and> tokenId_text (doc w') = []
      \<and> session (doc w') = Finite 0
      \<and> in_Setup (doc w')"
proof -
  have ok: "map_of [(ascii ''ok'', JBool True)] (ascii ''ok'') = Some (JBool True)"
    by simp
  have empty: "tokenId_text example_page = []" by (simp add: example_page_def)
  have initial: "in_Setup example_page" by (simp add: eval_defs)
  let ?w = "example_world\<lparr>doc := example_page\<lparr>tokenId_text := ascii ''42''\<rparr>\<rparr>"
  from delete_success_reloads [OF ok empty initial, of ?w]
  show ?thesis by (auto simp: example_world_def)
qed

text \<open>
  C10. UpdateBio and DeleteToken with an empty identifier display (no save has
  succeeded): nothing blocks the operation; the request is issued, with \<open>id\<close> 0,
  \<open>Number\<close> of the empty text being 0.
\<close>

theorem unset_session_sends_id_zero:
  assumes "tokenId_text (doc w) = []"
  shows "session (doc w) = Finite 0
     \<and> (\<exists>w'. updateBio out w = Inr w'
          \<and> requests (trace w') = requests (trace w) @
               [\<lparr>url = ascii ''/api/update-bio'', http_method = ascii ''POST'',
                 headers = [(ascii ''Content-Type'', ascii ''application/json'')],
                 body = JSON_stringify (JObj [(ascii ''id'', JNum 0),
                                              (ascii ''newBio'', JStr (newBio_value (doc w)))])\<rparr>])
     \<and> (\<exists>w'. deleteToken loaded True out w = Inr w'
          \<and> requests (trace w') = requests (trace w) @
               [\<lparr>url = ascii ''/api/delete-token'', http_method = ascii ''POST'',
                 headers = [(ascii ''Content-Type'', ascii ''application/json'')],
                 body = JSON_stringify (JObj [(ascii ''id'', JNum 0)])\<rparr>])"
proof -
  from assms have n: "to_Number (tokenId_text (doc w)) = Finite 0"
    by (simp add: to_Number_def trim_def)
  then have u: "update_request (doc w) =
       \<lparr>url = ascii ''/api/update-bio'', http_method = ascii ''POST'',
        headers = [(ascii ''Content-Type'', ascii ''application/json'')],
        body = JSON_stringify (JObj [(ascii ''id'', JNum 0),
                                     (ascii ''newBio'', JStr (newBio_value (doc w)))])\<rparr>"
    by (simp add: update_request_def apiBase_def json_headers_def)
  from n have d: "delete_request (doc w) =
       \<lparr>url = ascii ''/api/delete-token'', http_method = ascii ''POST'',
        headers = [(ascii ''Content-Type'', ascii ''application/json'')],
        body = JSON_stringify (JObj [(ascii ''id'', JNum 0)])\<rparr>"
    by (simp add: delete_request_def apiBase_def json_headers_def)
  from n u d updateBio_requests [of out w] deleteToken_requests [of loaded out w]
  show ?thesis by (simp add: session_def)
qed

theorem unset_session_sends_id_zero_witness:
  "(\<exists>w'. updateBio (Parsed (JObj [(ascii ''ok'', JBool True)])) example_world = Inr w'
          \<and> map body (requests (trace w')) =
               [[0x7B, 0x22, 0x69, 0x64, 0x22, 0x3A, 0x30, 0x2C, 0x22, 0x6E, 0x65, 0x77, 0x42,
                 0x69, 0x6F, 0x22, 0x3A, 0x22, 0x20, 0x68, 0x65, 0x6C, 0x6C, 0x6F, 0x20, 0x22,
                 0x7D]])
   \<and> (\<exists>w'. deleteToken example_page True (Parsed (JObj [(ascii ''ok'', JBool True)]))
              example_world = Inr w'
          \<and> map body (requests (trace w')) = [[0x7B, 0x22, 0x69, 0x64, 0x22, 0x3A, 0x30, 0x7D]])"
proof -
  have empty: "tokenId_text (doc example_world) = []"
    by (simp add: example_world_def example_page_def)
  have e: "requests (trace example_world) = []"
    by (simp add: example_world_def requests_simps)
  have b: "newBio_value (doc example_world) = ascii '' hello ''"
    by (simp add: example_world_def example_page_def)
  have j1: "JSON_stringify (JObj [(ascii ''id'', JNum 0),
                                  (ascii ''newBio'', JStr (ascii '' hello ''))]) =
      [0x7B, 0x22, 0x69, 0x64, 0x22, 0x3A, 0x30, 0x2C, 0x22, 0x6E, 0x65, 0x77, 0x42,
       0x69, 0x6F, 0x22, 0x3A, 0x22, 0x20, 0x68, 0x65, 0x6C, 0x6C, 0x6F, 0x20, 0x22, 0x7D]"
    by (simp add: ascii_def quote_def is_high_surrogate_def is_low_surrogate_def
        Number_toString_def digits.simps digit_def)
  have j2: "JSON_stringify (JObj [(ascii ''id'', JNum 0)]) =
      [0x7B, 0x22, 0x69, 0x64, 0x22, 0x3A, 0x30, 0x7D]"
    by (simp add: ascii_def quote_def is_high_surrogate_def is_low_surrogate_def
        Number_toString_def digits.simps digit_def)
  from unset_session_sends_id_zero
    [OF empty, of "Parsed (JObj [(ascii ''ok'', JBool True)])" example_page]
  show ?thesis unfolding e b j1 j2 by auto
qed

end
